theory Spec2Isabelle
  imports Main "HOL-Library.Word"
begin

section \<open>Values thrown by the JavaScript code\<close>

text \<open>
  Every \<open>throw\<close> of the sources is a value of \<open>exn\<close>. \<open>Error\<close>, \<open>COBSDecoderError\<close> and
  \<open>TypeError\<close> carry their message and are instances of \<open>Error\<close>; \<open>NonError\<close> stands for
  a thrown value that is not an \<open>Error\<close> instance (the \<open>err instanceof Error\<close> tests of
  the hooks have a branch for it).
\<close>

datatype exn = Error string | COBSDecoderError string | TypeError string | NonError

type_synonym byte = "8 word"

section \<open>utils/cobsDecoder.ts\<close>

text \<open>
  The inner loop of \<open>decodeCOBS\<close> (lines 20 to 22):
  \<^verbatim>\<open>for (let j = i + 1; j < nextBlockEnd && j < data.length; j++) output.push(data[j])\<close>
\<close>

function copy_block :: "byte list \<Rightarrow> nat \<Rightarrow> nat \<Rightarrow> byte list \<Rightarrow> byte list" where
  "copy_block data j nextBlockEnd output =
     (if j < nextBlockEnd \<and> j < length data
      then copy_block data (j + 1) nextBlockEnd (output @ [data ! j])
      else output)"
  by pat_completeness auto
termination
  by (relation "measure (\<lambda>(data, j, nextBlockEnd, output). length data - j)") auto

declare copy_block.simps [simp del]

text \<open>
  The outer loop (lines 13 to 29). The input is a sequence of bytes, so a code is a number
  from 0 to 255 and the offsets are natural numbers; the sums \<open>i + code\<close> are sums of
  JavaScript numbers and do not wrap.
\<close>

function decode_loop :: "byte list \<Rightarrow> nat \<Rightarrow> byte list \<Rightarrow> exn + byte list" where
  "decode_loop data i output =
     (if i < length data then
        (let code = unat (data ! i) in
         if code = 0 \<or> i + code > length data + 1
         then Inl (COBSDecoderError ''Invalid COBS data'')
         else
           (let nextBlockEnd = i + code;
                output1 = copy_block data (i + 1) nextBlockEnd output;
                output2 = (if code < 0xFF \<and> nextBlockEnd < length data
                           then output1 @ [0x00] else output1)
            in decode_loop data nextBlockEnd output2))
      else Inr output)"
  by pat_completeness auto
termination
  by (relation "measure (\<lambda>(data, i, output). length data - i)") auto

declare decode_loop.simps [simp del]

text \<open>
  \<open>Uint8Array.from(output)\<close> keeps the elements, which are bytes already.
\<close>

definition decodeCOBS :: "byte list \<Rightarrow> exn + byte list" where
  "decodeCOBS data = decode_loop data 0 []"

text \<open>
  The offsets at which the outer loop reads a length code: it starts at offset \<open>i\<close>,
  stops at the first invalid code and otherwise moves on by the code.
\<close>

definition invalid_code :: "byte list \<Rightarrow> nat \<Rightarrow> bool" where
  "invalid_code data i =
     (unat (data ! i) = 0 \<or> i + unat (data ! i) > length data + 1)"

function code_offsets :: "byte list \<Rightarrow> nat \<Rightarrow> nat list" where
  "code_offsets data i =
     (if i < length data
      then i # (if invalid_code data i then [] else code_offsets data (i + unat (data ! i)))
      else [])"
  by pat_completeness auto
termination
  by (relation "measure (\<lambda>(data, i). length data - i)") (auto simp: invalid_code_def)

declare code_offsets.simps [simp del]

text \<open>
  What the block whose code is read at offset \<open>i\<close> adds to the output: the bytes after the
  code, as many as the code announces and the input has, and the zero byte.
\<close>

definition verbatim_bytes :: "byte list \<Rightarrow> nat \<Rightarrow> byte list" where
  "verbatim_bytes data i = take (unat (data ! i) - 1) (drop (i + 1) data)"

definition restored_zero :: "byte list \<Rightarrow> nat \<Rightarrow> byte list" where
  "restored_zero data i =
     (if unat (data ! i) < 0xFF \<and> i + unat (data ! i) < length data then [0] else [])"

definition block_output :: "byte list \<Rightarrow> nat \<Rightarrow> byte list" where
  "block_output data i = verbatim_bytes data i @ restored_zero data i"

text \<open>
  Modelled from the spec: the encoder, "the inverse stuffing algorithm" of the round-trip
  property, is not among the sources. It is the byte stuffing of the glossary: the input
  is cut at its zero bytes, each piece is written after a code byte that is the length of
  the piece plus one, a piece of 254 bytes without a zero is written after the code 0xFF
  and is not followed by a zero, and the output has no zero byte. \<open>block\<close> is the piece
  collected so far. Encoders differ in one place: when the input ends with a full piece
  of 254 bytes, some end the output there and some add the code 0x01 of an empty last
  piece; \<open>closing\<close> chooses the second.
\<close>

fun encode_loop :: "bool \<Rightarrow> byte list \<Rightarrow> byte list \<Rightarrow> byte list" where
  "encode_loop closing [] block = of_nat (length block + 1) # block"
| "encode_loop closing (b # bs) block =
     (if b = 0 then of_nat (length block + 1) # block @ encode_loop closing bs []
      else if length block + 1 = 254
      then 0xFF # (block @ [b]) @ (if bs = [] \<and> \<not> closing then [] else encode_loop closing bs [])
      else encode_loop closing bs (block @ [b]))"

definition encodeCOBS :: "bool \<Rightarrow> byte list \<Rightarrow> byte list" where
  "encodeCOBS closing data = encode_loop closing data []"

section \<open>hooks/useHttp.ts\<close>

subsection \<open>Promises\<close>

text \<open>
  An \<open>async\<close> function is modelled by the outcome of its promise and the state it leaves.
  \<open>Pending\<close> is a promise that never settles: the state returned with it is the state at
  the \<open>await\<close> where the function is suspended.
\<close>

datatype 'a promise = Resolved 'a | Rejected exn | Pending

text \<open>\<open>err instanceof Error ? err.message : fallback\<close>\<close>

fun message_of :: "exn \<Rightarrow> string \<Rightarrow> string" where
  "message_of (Error m) fallback = m"
| "message_of (COBSDecoderError m) fallback = m"
| "message_of (TypeError m) fallback = m"
| "message_of NonError fallback = fallback"

subsection \<open>The read loop of the streaming mode\<close>

text \<open>
  \<open>buffer.indexOf('\n')\<close>: the index of the first line feed, \<open>None\<close> for the \<open>-1\<close> of
  JavaScript.
\<close>

fun indexOf :: "string \<Rightarrow> char \<Rightarrow> nat option" where
  "indexOf [] c = None"
| "indexOf (x # xs) c = (if x = c then Some 0 else map_option Suc (indexOf xs c))"

text \<open>\<open>.replace(/\r$/, '')\<close>: one carriage return at the end of the string is removed.\<close>

definition strip_cr :: "string \<Rightarrow> string" where
  "strip_cr line = (if line \<noteq> [] \<and> last line = CHR 0x0D then butlast line else line)"

text \<open>
  The inner loop (lines 130 to 134). \<open>handler\<close> tells whether \<open>lineHandlerRef.current\<close>
  holds a handler; \<open>emitted\<close> collects the lines the handler has been called with.
\<close>

function drain :: "bool \<Rightarrow> string \<Rightarrow> string list \<Rightarrow> string \<times> string list" where
  "drain handler buffer emitted =
     (case indexOf buffer (CHR 0x0A) of
        Some index \<Rightarrow>
          (let line = strip_cr (take index buffer)
           in drain handler (drop (index + 1) buffer)
                (if handler then emitted @ [line] else emitted))
      | None \<Rightarrow> (buffer, emitted))"
  by pat_completeness auto
termination
proof (relation "measure (\<lambda>(handler, buffer, emitted). length buffer)")
  show "wf (measure (\<lambda>(handler, buffer, emitted). length buffer))"
    by simp
next
  fix handler :: bool and buffer :: string and emitted :: "string list" and index line
  assume "indexOf buffer (CHR 0x0A) = Some index"
  moreover have "indexOf xs c = Some n \<Longrightarrow> n < length xs" for xs c n
    by (induction xs arbitrary: n) (auto split: if_splits)
  ultimately have "index < length buffer"
    by blast
  then show "((handler, drop (index + 1) buffer, if handler then emitted @ [line] else emitted),
              (handler, buffer, emitted))
             \<in> measure (\<lambda>(handler, buffer, emitted). length buffer)"
    by simp
qed

declare drain.simps [simp del]

text \<open>
  What \<open>reader.read()\<close> gives, one value per iteration of the outer loop (lines 123 to
  136): a chunk, the end of the stream, or a rejection. A chunk is given by the text that
  \<open>textDecoder.decode(value, { stream: true })\<close> returns for it; for ASCII bytes that is
  the bytes themselves, one character each. Every \<open>Uint8Array\<close> is truthy, the empty one
  too, so the test \<open>if (value)\<close> passes for every chunk.
\<close>

datatype read_result = ReadValue string | ReadDone | ReadRejects

datatype stream_status = Reading | Ended | Failed

record stream_state =
  buffer :: string
  emitted :: "string list"
  status :: stream_status

text \<open>
  The outer loop on the values read so far. When they are used up the loop is waiting
  at \<open>await reader.read()\<close> (\<open>Reading\<close>). At the end of the stream the loop is left and
  \<open>buffer\<close> is dropped with it; a rejection ends in the \<open>catch\<close> (lines 137 to 141).
\<close>

fun read_loop :: "bool \<Rightarrow> read_result list \<Rightarrow> string \<Rightarrow> string list \<Rightarrow> stream_state" where
  "read_loop handler [] buf em = \<lparr>buffer = buf, emitted = em, status = Reading\<rparr>"
| "read_loop handler (ReadDone # rs) buf em = \<lparr>buffer = buf, emitted = em, status = Ended\<rparr>"
| "read_loop handler (ReadRejects # rs) buf em = \<lparr>buffer = buf, emitted = em, status = Failed\<rparr>"
| "read_loop handler (ReadValue text # rs) buf em =
     (case drain handler (buf @ text) em of (buf', em') \<Rightarrow> read_loop handler rs buf' em')"

text \<open>The loop starts with \<open>let buffer = ''\<close> (line 118).\<close>

definition stream_lines :: "bool \<Rightarrow> read_result list \<Rightarrow> stream_state" where
  "stream_lines handler rs = read_loop handler rs [] []"

subsection \<open>The hook\<close>

record HttpState =
  http_isSupported :: bool
  http_isConnecting :: bool
  http_isConnected :: bool
  http_error :: "string option"
  http_address :: string

text \<open>
  The hook's state and its refs. \<open>socketRef\<close> holds the address of the WebSocket it refers
  to, \<open>abortControllerRef\<close> and \<open>lineHandlerRef\<close> tell whether the ref is set.
  \<open>writerRef\<close> is never assigned a writer in the source, so it is always \<open>null\<close> and is
  left out, with the branch of \<open>disconnect\<close> that closes it (lines 42 to 48).
\<close>

record useHttp =
  http_state :: HttpState
  lineHandlerRef :: bool
  abortControllerRef :: bool
  socketRef :: "string option"

definition useHttp_init :: "bool \<Rightarrow> useHttp" where
  "useHttp_init supported =
     \<lparr>http_state = \<lparr>http_isSupported = supported, http_isConnecting = False,
                      http_isConnected = False, http_error = None, http_address = []\<rparr>,
      lineHandlerRef = False, abortControllerRef = False, socketRef = None\<rparr>"

definition setState :: "(HttpState \<Rightarrow> HttpState) \<Rightarrow> useHttp \<Rightarrow> useHttp" where
  "setState f h = h\<lparr>http_state := f (http_state h)\<rparr>"

text \<open>\<open>onLine\<close> (lines 33 to 35).\<close>

definition http_onLine :: "useHttp \<Rightarrow> useHttp" where
  "http_onLine h = h\<lparr>lineHandlerRef := True\<rparr>"

text \<open>
  \<open>disconnect\<close> (lines 37 to 61): the controller is aborted and the socket closed, both
  refs are cleared, whatever is thrown is swallowed, and \<open>isConnected\<close> becomes false. It
  always resolves.
\<close>

definition http_disconnect :: "useHttp \<Rightarrow> useHttp" where
  "http_disconnect h =
     setState (\<lambda>s. s\<lparr>http_isConnected := False\<rparr>)
       (h\<lparr>abortControllerRef := False, socketRef := None\<rparr>)"

text \<open>
  What the peer does during a connection attempt. For a WebSocket: the constructor throws,
  \<open>onopen\<close> fires first, \<open>onerror\<close> fires first, or neither fires before the timer of
  5000 ms does (line 103). For \<open>fetch\<close>: it resolves with a response that has a body or
  has none, it rejects, or it never settles; no timer is set beside it and nothing aborts
  the controller but \<open>disconnect\<close>.
\<close>

datatype ws_peer = WsOpens | WsErrors | WsSilent | WsConstructorThrows exn

datatype fetch_peer = FetchResponds bool | FetchRejects exn | FetchSilent

record network =
  ws_peer :: ws_peer
  fetch_peer :: fetch_peer

text \<open>\<open>address.startsWith('ws://') || address.startsWith('wss://')\<close>\<close>

definition isWebSocket :: "string \<Rightarrow> bool" where
  "isWebSocket address = (take 5 address = ''ws://'' \<or> take 6 address = ''wss://'')"

text \<open>
  The promise awaited at lines 99 to 104: resolved by \<open>onopen\<close>, rejected by \<open>onerror\<close>,
  rejected by the timer otherwise.
\<close>

fun ws_handshake :: "ws_peer \<Rightarrow> unit promise" where
  "ws_handshake WsOpens = Resolved ()"
| "ws_handshake WsErrors = Rejected (Error ''Failed to connect to WebSocket'')"
| "ws_handshake WsSilent = Rejected (Error ''Connection timeout'')"
| "ws_handshake (WsConstructorThrows e) = Rejected e"

text \<open>
  \<open>await fetch(address, { signal })\<close> and the test of \<open>response.body\<close> (lines 108 to
  114). With a body the read loop is started and the function goes on without waiting
  for it.
\<close>

fun fetch_stream :: "fetch_peer \<Rightarrow> unit promise" where
  "fetch_stream (FetchResponds has_body) =
     (if \<not> has_body then Rejected (Error ''Response has no body'') else Resolved ())"
| "fetch_stream (FetchRejects e) = Rejected e"
| "fetch_stream FetchSilent = Pending"

text \<open>
  The body of the \<open>try\<close> of \<open>connect\<close> up to line 143: the outcome of what is awaited and
  the refs as they are then. The socket is stored in \<open>socketRef\<close> as soon as it is
  constructed (line 84), before the handshake.
\<close>

definition http_attempt :: "network \<Rightarrow> string \<Rightarrow> useHttp \<Rightarrow> unit promise \<times> useHttp" where
  "http_attempt net address h =
     (if isWebSocket address
      then (case ws_peer net of
              WsConstructorThrows e \<Rightarrow> (Rejected e, h)
            | WsOpens \<Rightarrow> (ws_handshake WsOpens, h\<lparr>socketRef := Some address\<rparr>)
            | WsErrors \<Rightarrow> (ws_handshake WsErrors, h\<lparr>socketRef := Some address\<rparr>)
            | WsSilent \<Rightarrow> (ws_handshake WsSilent, h\<lparr>socketRef := Some address\<rparr>))
      else (fetch_stream (fetch_peer net), h))"

text \<open>\<open>connect\<close> (lines 63 to 154).\<close>

definition http_connect :: "network \<Rightarrow> string \<Rightarrow> useHttp \<Rightarrow> unit promise \<times> useHttp" where
  "http_connect net address h =
     (if \<not> http_isSupported (http_state h)
      then (Resolved (),
            setState (\<lambda>s. s\<lparr>http_error := Some ''Streaming fetch not supported in this browser.''\<rparr>) h)
      else
        (let h1 = http_disconnect h;
             h2 = setState (\<lambda>s. s\<lparr>http_isConnecting := True, http_error := None,
                                   http_address := address\<rparr>) h1;
             h3 = h2\<lparr>abortControllerRef := True\<rparr>
         in case http_attempt net address h3 of
              (Pending, h4) \<Rightarrow> (Pending, h4)
            | (Resolved u, h4) \<Rightarrow>
                (Resolved (),
                 setState (\<lambda>s. s\<lparr>http_isConnecting := False\<rparr>)
                   (setState (\<lambda>s. s\<lparr>http_isConnected := True\<rparr>) h4))
            | (Rejected err, h4) \<Rightarrow>
                (Rejected err,
                 setState (\<lambda>s. s\<lparr>http_isConnecting := False\<rparr>)
                   (setState (\<lambda>s. s\<lparr>http_error := Some (message_of err ''Failed to connect.'')\<rparr>) h4))))"

text \<open>What a successful \<open>write\<close> hands to a transport.\<close>

datatype sent = SerialWrite string | SocketSend string

text \<open>\<open>write\<close> (lines 156 to 167).\<close>

definition http_write :: "string \<Rightarrow> useHttp \<Rightarrow> sent promise" where
  "http_write data h =
     (if \<not> http_isConnected (http_state h) then Rejected (Error ''Not connected'')
      else (case socketRef h of
              Some socket \<Rightarrow> Resolved (SocketSend data)
            | None \<Rightarrow> Rejected (Error ''write on HTTP connection not supported'')))"

section \<open>The connection manager (useDataConnection)\<close>

datatype parity = ParityNone | ParityEven | ParityOdd

datatype flowControl = FlowNone | FlowHardware

record SerialConfig =
  baudRate :: nat
  dataBits :: nat
  stopBits :: nat
  parity :: parity
  flowControl :: flowControl

definition DEFAULT_SERIAL_CONFIG :: SerialConfig where
  "DEFAULT_SERIAL_CONFIG =
     \<lparr>baudRate = 115200, dataBits = 8, stopBits = 1, parity = ParityNone, flowControl = FlowNone\<rparr>"

datatype ConnectionType = Serial | Http | Generator

text \<open>
  Modelled from the spec: the hook \<open>useSerial\<close> is not among the sources. The manager reads
  \<open>serial.state.isSupported\<close>, \<open>isConnecting\<close>, \<open>isConnected\<close> and \<open>error\<close> and calls
  \<open>connect(baudRate)\<close>, \<open>disconnect()\<close> and \<open>write(data)\<close>. By section 4.4 of the spec a
  backend is disconnected, connecting or connected; \<open>connect\<close> leaves it connected on
  success and disconnected, with the error, on failure; \<open>disconnect\<close> leaves it
  disconnected and swallows its errors; \<open>write\<close> sends the data. What the port and the
  peer do during an attempt is the \<open>attempt\<close>.
\<close>

record SerialState =
  serial_isSupported :: bool
  serial_isConnecting :: bool
  serial_isConnected :: bool
  serial_error :: "string option"

datatype attempt = Succeeds | Fails exn | NeverSettles

fun serial_connect :: "attempt \<Rightarrow> nat \<Rightarrow> SerialState \<Rightarrow> unit promise \<times> SerialState" where
  "serial_connect Succeeds baud s =
     (Resolved (), s\<lparr>serial_isConnecting := False, serial_isConnected := True, serial_error := None\<rparr>)"
| "serial_connect (Fails e) baud s =
     (Rejected e, s\<lparr>serial_isConnecting := False, serial_isConnected := False,
                    serial_error := Some (message_of e ''Failed to connect'')\<rparr>)"
| "serial_connect NeverSettles baud s =
     (Pending, s\<lparr>serial_isConnecting := True, serial_isConnected := False, serial_error := None\<rparr>)"

definition serial_disconnect :: "SerialState \<Rightarrow> SerialState" where
  "serial_disconnect s = s\<lparr>serial_isConnecting := False, serial_isConnected := False\<rparr>"

definition serial_write :: "string \<Rightarrow> SerialState \<Rightarrow> sent promise" where
  "serial_write data s = Resolved (SerialWrite data)"

text \<open>
  Modelled from the spec: the hook \<open>useSignalGenerator\<close> is not among the sources. The
  manager reads \<open>generator.isRunning\<close> and calls \<open>setConfig(config)\<close>, \<open>start()\<close> and
  \<open>stop()\<close>, all synchronous. By section 4.4 the generator produces lines from local
  configuration only: \<open>start\<close> leaves it running, \<open>stop\<close> leaves it stopped. The
  configuration is not modelled. \<open>Throws e\<close> is a \<open>setConfig\<close> or \<open>start\<close> that throws
  \<open>e\<close>, which leaves the generator as it was.
\<close>

record generator_hook =
  isRunning :: bool

datatype start_attempt = Starts | Throws exn

definition generator_stop :: "generator_hook \<Rightarrow> generator_hook" where
  "generator_stop g = g\<lparr>isRunning := False\<rparr>"

fun generator_start :: "start_attempt \<Rightarrow> generator_hook \<Rightarrow> exn + generator_hook" where
  "generator_start Starts g = Inr (g\<lparr>isRunning := True\<rparr>)"
| "generator_start (Throws e) g = Inl e"

text \<open>
  The three \<open>useState\<close> cells of \<open>useDataConnection\<close> (lines 44 to 46) and the three
  hooks (lines 48 to 50). A callback reads the hooks' state as it is when the callback is
  called.
\<close>

record manager =
  connectionType :: "ConnectionType option"
  isConnecting :: bool
  error :: "string option"
  serial :: SerialState
  generator :: generator_hook
  http :: useHttp

definition useDataConnection_init :: "bool \<Rightarrow> bool \<Rightarrow> manager" where
  "useDataConnection_init serialSupported httpSupported =
     \<lparr>connectionType = None, isConnecting = False, error = None,
      serial = \<lparr>serial_isSupported = serialSupported, serial_isConnecting = False,
                 serial_isConnected = False, serial_error = None\<rparr>,
      generator = \<lparr>isRunning = False\<rparr>,
      http = http_onLine (useHttp_init httpSupported)\<rparr>"

text \<open>\<open>a || b\<close> on \<open>string | null\<close>: \<open>null\<close> and the empty string are falsy.\<close>

definition or_else :: "string option \<Rightarrow> string option \<Rightarrow> string option" where
  "or_else a b = (case a of Some s \<Rightarrow> (if s \<noteq> [] then a else b) | None \<Rightarrow> b)"

record ConnectionState =
  cs_type :: "ConnectionType option"
  cs_isConnecting :: bool
  cs_isConnected :: bool
  cs_isSupported :: bool
  cs_error :: "string option"

text \<open>The \<open>state\<close> the manager exposes (lines 52 to 58).\<close>

definition state :: "manager \<Rightarrow> ConnectionState" where
  "state m =
     \<lparr>cs_type = connectionType m,
      cs_isConnecting = (isConnecting m \<or> serial_isConnecting (serial m)
                          \<or> http_isConnecting (http_state (http m))),
      cs_isConnected = (serial_isConnected (serial m) \<or> isRunning (generator m)
                         \<or> http_isConnected (http_state (http m))),
      cs_isSupported = (serial_isSupported (serial m) \<and> http_isSupported (http_state (http m))),
      cs_error = or_else (or_else (error m) (serial_error (serial m)))
                         (http_error (http_state (http m)))\<rparr>"

text \<open>
  The teardown steps at the head of the callbacks: \<open>if (generator.isRunning)
  generator.stop()\<close>, \<open>if (http.state.isConnected) await http.disconnect()\<close> and
  \<open>if (serial.state.isConnected) await serial.disconnect()\<close>. Each tests \<open>isRunning\<close> or
  \<open>isConnected\<close> only; none tests \<open>isConnecting\<close>.
\<close>

definition stop_generator :: "manager \<Rightarrow> manager" where
  "stop_generator m =
     (if isRunning (generator m) then m\<lparr>generator := generator_stop (generator m)\<rparr> else m)"

definition drop_http :: "manager \<Rightarrow> manager" where
  "drop_http m =
     (if http_isConnected (http_state (http m)) then m\<lparr>http := http_disconnect (http m)\<rparr> else m)"

definition drop_serial :: "manager \<Rightarrow> manager" where
  "drop_serial m =
     (if serial_isConnected (serial m) then m\<lparr>serial := serial_disconnect (serial m)\<rparr> else m)"

text \<open>\<open>connectSerial\<close> (lines 60 to 87).\<close>

definition connectSerial :: "attempt \<Rightarrow> SerialConfig \<Rightarrow> manager \<Rightarrow> unit promise \<times> manager" where
  "connectSerial a config m =
     (let m1 = stop_generator m;
          m2 = drop_http m1;
          m3 = m2\<lparr>isConnecting := True, error := None\<rparr>
      in case serial_connect a (baudRate config) (serial m3) of
           (Resolved u, s) \<Rightarrow>
             (Resolved (), m3\<lparr>serial := s, connectionType := Some Serial, isConnecting := False\<rparr>)
         | (Rejected err, s) \<Rightarrow>
             (Rejected err,
              m3\<lparr>serial := s, error := Some (message_of err ''Failed to connect to serial port''),
                 connectionType := None, isConnecting := False\<rparr>)
         | (Pending, s) \<Rightarrow> (Pending, m3\<lparr>serial := s\<rparr>))"

text \<open>\<open>connectHttp\<close> (lines 89 to 112).\<close>

definition connectHttp :: "network \<Rightarrow> string \<Rightarrow> manager \<Rightarrow> unit promise \<times> manager" where
  "connectHttp net address m =
     (let m1 = drop_serial m;
          m2 = stop_generator m1;
          m3 = m2\<lparr>isConnecting := True, error := None\<rparr>
      in case http_connect net address (http m3) of
           (Resolved u, h) \<Rightarrow>
             (Resolved (), m3\<lparr>http := h, connectionType := Some Http, isConnecting := False\<rparr>)
         | (Rejected err, h) \<Rightarrow>
             (Rejected err,
              m3\<lparr>http := h, error := Some (message_of err ''Failed to connect to HTTP stream''),
                 connectionType := None, isConnecting := False\<rparr>)
         | (Pending, h) \<Rightarrow> (Pending, m3\<lparr>http := h\<rparr>))"

text \<open>
  \<open>connectGenerator\<close> (lines 114 to 134). The \<open>catch\<close> records the error and clears the
  type; it does not throw again, so the promise resolves.
\<close>

definition connectGenerator :: "start_attempt \<Rightarrow> manager \<Rightarrow> unit promise \<times> manager" where
  "connectGenerator a m =
     (let m1 = drop_serial m;
          m2 = drop_http m1;
          m3 = m2\<lparr>error := None, connectionType := Some Generator\<rparr>
      in case generator_start a (generator m3) of
           Inr g \<Rightarrow> (Resolved (), m3\<lparr>generator := g\<rparr>)
         | Inl err \<Rightarrow>
             (Resolved (),
              m3\<lparr>error := Some (message_of err ''Failed to start signal generator''),
                 connectionType := None\<rparr>))"

text \<open>\<open>disconnect\<close> (lines 136 to 152).\<close>

definition disconnect :: "manager \<Rightarrow> unit promise \<times> manager" where
  "disconnect m =
     (let m1 = m\<lparr>error := None\<rparr>;
          m2 = drop_serial m1;
          m3 = stop_generator m2;
          m4 = drop_http m3
      in (Resolved (), m4\<lparr>connectionType := None\<rparr>))"

text \<open>\<open>write\<close> of the manager (lines 160 to 168).\<close>

definition manager_write :: "string \<Rightarrow> manager \<Rightarrow> sent promise" where
  "manager_write data m =
     (if connectionType m = Some Serial \<and> serial_isConnected (serial m)
      then serial_write data (serial m)
      else if connectionType m = Some Http \<and> http_isConnected (http_state (http m))
      then http_write data (http m)
      else Rejected (Error ''Not connected''))"

text \<open>
  The backends that are connected or connecting, for the mutual exclusion of the
  manager.
\<close>

definition serial_active :: "manager \<Rightarrow> bool" where
  "serial_active m = (serial_isConnected (serial m) \<or> serial_isConnecting (serial m))"

definition http_active :: "manager \<Rightarrow> bool" where
  "http_active m =
     (http_isConnected (http_state (http m)) \<or> http_isConnecting (http_state (http m)))"

definition generator_active :: "manager \<Rightarrow> bool" where
  "generator_active m = isRunning (generator m)"

definition active_backends :: "manager \<Rightarrow> ConnectionType list" where
  "active_backends m =
     (if serial_active m then [Serial] else []) @
     (if http_active m then [Http] else []) @
     (if generator_active m then [Generator] else [])"

text \<open>
  Two peers for the examples: one that never answers, and one that opens the WebSocket and
  answers a request with a body.
\<close>

definition silent_network :: network where
  "silent_network = \<lparr>ws_peer = WsSilent, fetch_peer = FetchSilent\<rparr>"

definition open_network :: network where
  "open_network = \<lparr>ws_peer = WsOpens, fetch_peer = FetchResponds True\<rparr>"

section \<open>utils/chartExport.ts\<close>

subsection \<open>Numbers, arrays and strings of JavaScript\<close>

text \<open>
  A JavaScript number is a finite double, \<open>NaN\<close> or an infinity; \<open>'f\<close> is the type of the
  finite ones. An array read \<open>xs[i]\<close> gives \<open>undefined\<close> (\<open>None\<close>) beyond the end, and
  \<open>Number.isFinite\<close> is false for \<open>undefined\<close>.
\<close>

datatype 'f number = Finite 'f | NaN | PosInfinity | NegInfinity

fun isFinite :: "'f number \<Rightarrow> bool" where
  "isFinite (Finite x) = True"
| "isFinite NaN = False"
| "isFinite PosInfinity = False"
| "isFinite NegInfinity = False"

definition js_nth :: "'a list \<Rightarrow> nat \<Rightarrow> 'a option" where
  "js_nth xs i = (if i < length xs then Some (xs ! i) else None)"


text \<open>
  What the export code asks of the JavaScript runtime, taken as parameters:
  \<open>n.toString()\<close>, \<open>new Date(n).toISOString()\<close> (taken at timestamps that are dates, where
  it does not throw), \<open>n.toFixed(3)\<close>, \<open>a - b\<close>, \<open>n / 1000\<close>, the truthiness of a number,
  and the four bytes that \<open>setFloat32(offset, n, true)\<close> writes for an element of a
  \<open>Float32Array\<close>.
\<close>

record 'f runtime =
  toString :: "'f number \<Rightarrow> string"
  toISOString :: "'f number \<Rightarrow> string"
  toFixed3 :: "'f number \<Rightarrow> string"
  subtract :: "'f number \<Rightarrow> 'f number \<Rightarrow> 'f number"
  divide1000 :: "'f number \<Rightarrow> 'f number"
  truthy :: "'f number \<Rightarrow> bool"
  float32 :: "'f number \<Rightarrow> byte list"

text \<open>\<open>xs.join(sep)\<close> on an array of strings.\<close>

fun join :: "string \<Rightarrow> string list \<Rightarrow> string" where
  "join sep [] = []"
| "join sep [x] = x"
| "join sep (x # y # ys) = x @ sep @ join sep (y # ys)"

subsection \<open>Options, snapshot and store\<close>

datatype ChartExportScope = Visible | All

datatype TimeFormat = Iso | Relative | Timestamp

datatype ExportFormat = Csv | Wav

text \<open>
  \<open>ChartExportOptions\<close> (lines 6 to 11); \<open>None\<close> is an optional field that is absent.
\<close>

record ChartExportOptions =
  scope :: ChartExportScope
  includeTimestamps :: "bool option"
  timeFormat :: "TimeFormat option"
  format :: ExportFormat

text \<open>The test \<open>if (options.includeTimestamps)\<close> and the value \<open>options.timeFormat || 'iso'\<close>.\<close>

definition includes_timestamps :: "ChartExportOptions \<Rightarrow> bool" where
  "includes_timestamps options = (includeTimestamps options = Some True)"

definition time_format :: "ChartExportOptions \<Rightarrow> TimeFormat" where
  "time_format options = (case timeFormat options of Some f \<Rightarrow> f | None \<Rightarrow> Iso)"

text \<open>
  Modelled from the spec: the module \<open>store/RingStore\<close>, with the types \<open>RingStore\<close> and
  \<open>ViewPortData\<close>, is not among the sources. The records hold what the export code reads:
  of a store \<open>getSeries()\<close>, \<open>getCapacity()\<close>, \<open>writeIndex\<close>, \<open>times\<close>, \<open>buffers\<close> and
  \<open>firstTimestamp\<close>; of a snapshot \<open>series\<close>, \<open>getTimes()\<close>, \<open>getSeriesData(index)\<close> and
  \<open>firstTimestamp\<close>. By section 3 of the spec a series has a stable index and a display
  name, the series are in insertion order, the store has one time array and one sample
  array per series, all of the capacity C, and the write cursor W counts the samples ever
  appended.
\<close>

record PlotSeries =
  series_id :: nat
  name :: string

record 'f RingStore =
  getSeries :: "PlotSeries list"
  getCapacity :: nat
  writeIndex :: nat
  store_times :: "'f number list"
  buffers :: "'f number list list"
  firstTimestamp :: "'f number option"

record 'f ViewPortData =
  series :: "PlotSeries list"
  getTimes :: "'f number list"
  getSeriesData :: "nat \<Rightarrow> 'f number list"
  snapshot_firstTimestamp :: "'f number option"

subsection \<open>The CSV export\<close>

text \<open>\<open>formatChartTimestamp\<close> (lines 13 to 26).\<close>

fun formatChartTimestamp ::
  "'f runtime \<Rightarrow> 'f number \<Rightarrow> TimeFormat \<Rightarrow> 'f number option \<Rightarrow> string" where
  "formatChartTimestamp R timestamp Iso baseTime = toISOString R timestamp"
| "formatChartTimestamp R timestamp Relative baseTime =
     (let relativeMs = (case baseTime of
                          Some b \<Rightarrow> (if truthy R b then subtract R timestamp b else timestamp)
                        | None \<Rightarrow> timestamp)
      in toFixed3 R (divide1000 R relativeMs))"
| "formatChartTimestamp R timestamp Timestamp baseTime = toString R timestamp"

text \<open>\<open>Number.isFinite(value) ? value.toString() : ''\<close>\<close>

definition value_cell :: "'f runtime \<Rightarrow> 'f number option \<Rightarrow> string" where
  "value_cell R v = (case v of Some x \<Rightarrow> (if isFinite x then toString R x else []) | None \<Rightarrow> [])"

text \<open>
  The timestamp of a row: formatted when it is finite, the empty string otherwise (lines
  56 to 60 and 116 to 123).
\<close>

definition timestamp_cell ::
  "'f runtime \<Rightarrow> ChartExportOptions \<Rightarrow> 'f number option \<Rightarrow> 'f number option \<Rightarrow> string" where
  "timestamp_cell R options baseTime t =
     (case t of
        Some x \<Rightarrow> (if isFinite x then formatChartTimestamp R x (time_format options) baseTime else [])
      | None \<Rightarrow> [])"

text \<open>The header (lines 40 to 46 and 86 to 92).\<close>

definition csv_header :: "ChartExportOptions \<Rightarrow> PlotSeries list \<Rightarrow> string" where
  "csv_header options ss =
     join '','' ((if includes_timestamps options then [''Timestamp''] else []) @ map name ss)"

text \<open>
  \<open>exportVisibleChartDataAsCsv\<close> (lines 28 to 73): the loop over the series of one row,
  the loop over the rows, and the function.
\<close>

function visible_series_loop ::
  "'f runtime \<Rightarrow> 'f ViewPortData \<Rightarrow> nat \<Rightarrow> nat \<Rightarrow> string list \<Rightarrow> string list" where
  "visible_series_loop R snapshot i seriesIndex row =
     (if seriesIndex < length (series snapshot)
      then (let seriesData = getSeriesData snapshot seriesIndex;
                v = (if i < length seriesData then seriesData ! i else NaN)
            in visible_series_loop R snapshot i (seriesIndex + 1) (row @ [value_cell R (Some v)]))
      else row)"
  by pat_completeness auto
termination
  by (relation "measure (\<lambda>(R, snapshot, i, seriesIndex, row). length (series snapshot) - seriesIndex)")
     auto

declare visible_series_loop.simps [simp del]

function visible_rows_loop ::
  "'f runtime \<Rightarrow> ChartExportOptions \<Rightarrow> 'f ViewPortData \<Rightarrow> 'f number option \<Rightarrow> nat
     \<Rightarrow> string list \<Rightarrow> string list" where
  "visible_rows_loop R options snapshot baseTime i csvLines =
     (if i < length (getTimes snapshot)
      then (let row = (if includes_timestamps options
                       then [timestamp_cell R options baseTime (Some (getTimes snapshot ! i))]
                       else []);
                row' = visible_series_loop R snapshot i 0 row
            in visible_rows_loop R options snapshot baseTime (i + 1) (csvLines @ [join '','' row']))
      else csvLines)"
  by pat_completeness auto
termination
  by (relation "measure (\<lambda>(R, options, snapshot, baseTime, i, csvLines).
                  length (getTimes snapshot) - i)")
     auto

declare visible_rows_loop.simps [simp del]

definition exportVisibleChartDataAsCsv ::
  "'f runtime \<Rightarrow> 'f ViewPortData \<Rightarrow> ChartExportOptions \<Rightarrow> string" where
  "exportVisibleChartDataAsCsv R snapshot options =
     (if length (series snapshot) = 0 \<or> length (getTimes snapshot) = 0
      then ''No data available''
      else (let csvLines = [csv_header options (series snapshot)];
                baseTime = (if timeFormat options = Some Relative
                            then snapshot_firstTimestamp snapshot else None)
            in join [CHR 0x0A] (visible_rows_loop R options snapshot baseTime 0 csvLines)))"

text \<open>
  \<open>exportAllChartDataAsCsv\<close> (lines 75 to 135). The loop over the series of one row
  (lines 126 to 129): reading an element of \<open>store.buffers[seriesIndex]\<close> throws a
  \<open>TypeError\<close> when the store has no such buffer.
\<close>

function all_series_loop ::
  "'f runtime \<Rightarrow> 'f RingStore \<Rightarrow> nat \<Rightarrow> nat \<Rightarrow> string list \<Rightarrow> exn + string list" where
  "all_series_loop R store ringIndex seriesIndex row =
     (if seriesIndex < length (getSeries store)
      then (case js_nth (buffers store) seriesIndex of
              None \<Rightarrow> Inl (TypeError ''Cannot read properties of undefined'')
            | Some buf \<Rightarrow>
                all_series_loop R store ringIndex (seriesIndex + 1)
                  (row @ [value_cell R (js_nth buf ringIndex)]))
      else Inr row)"
  by pat_completeness auto
termination
  by (relation "measure (\<lambda>(R, store, ringIndex, seriesIndex, row).
                  length (getSeries store) - seriesIndex)")
     auto

declare all_series_loop.simps [simp del]

text \<open>
  The loop over the rows (lines 111 to 132), from \<open>i\<close> up to \<open>endIndex\<close>. It runs only
  when the capacity is positive, so \<open>i % capacity\<close> is a number.
\<close>

function all_rows_loop ::
  "'f runtime \<Rightarrow> ChartExportOptions \<Rightarrow> 'f RingStore \<Rightarrow> 'f number option \<Rightarrow> nat \<Rightarrow> nat
     \<Rightarrow> string list \<Rightarrow> exn + string list" where
  "all_rows_loop R options store baseTime endIndex i csvLines =
     (if i \<le> endIndex
      then (let ringIndex = i mod getCapacity store;
                row = (if includes_timestamps options
                       then [timestamp_cell R options baseTime (js_nth (store_times store) ringIndex)]
                       else [])
            in case all_series_loop R store ringIndex 0 row of
                 Inl e \<Rightarrow> Inl e
               | Inr row' \<Rightarrow>
                   all_rows_loop R options store baseTime endIndex (i + 1)
                     (csvLines @ [join '','' row']))
      else Inr csvLines)"
  by pat_completeness auto
termination
  by (relation "measure (\<lambda>(R, options, store, baseTime, endIndex, i, csvLines).
                  endIndex + 1 - i)")
     auto

declare all_rows_loop.simps [simp del]

definition exportAllChartDataAsCsv ::
  "'f runtime \<Rightarrow> 'f RingStore \<Rightarrow> ChartExportOptions \<Rightarrow> exn + string" where
  "exportAllChartDataAsCsv R store options =
     (if length (getSeries store) = 0 then Inr ''No data available''
      else (let csvLines = [csv_header options (getSeries store)];
                capacity = getCapacity store;
                totalSamples = min (writeIndex store) capacity
            in if totalSamples = 0 then Inr (join [CHR 0x0A] csvLines)
               else (let startIndex = (if writeIndex store > capacity
                                       then writeIndex store - capacity else 0);
                         endIndex = writeIndex store - 1;
                         baseTime = (if timeFormat options = Some Relative
                                     then firstTimestamp store else None)
                     in case all_rows_loop R options store baseTime endIndex startIndex csvLines of
                          Inl e \<Rightarrow> Inl e
                        | Inr ls \<Rightarrow> Inr (join [CHR 0x0A] ls))))"


subsection \<open>The WAV export\<close>

text \<open>
  \<open>writeString\<close>, \<open>writeUint32\<close> and \<open>writeUint16\<close> (lines 183 to 197): the character
  codes, and the value modulo \<open>2^32\<close> or \<open>2^16\<close> in little-endian order.
\<close>

definition writeString :: "string \<Rightarrow> byte list" where
  "writeString str = map (\<lambda>c. of_nat (of_char c)) str"

definition writeUint32 :: "nat \<Rightarrow> byte list" where
  "writeUint32 val =
     (let w = (of_nat val :: 32 word)
      in [ucast w, ucast (drop_bit 8 w), ucast (drop_bit 16 w), ucast (drop_bit 24 w)])"

definition writeUint16 :: "nat \<Rightarrow> byte list" where
  "writeUint16 val =
     (let w = (of_nat val :: 16 word) in [ucast w, ucast (drop_bit 8 w)])"

text \<open>\<open>Number.isFinite(value) ? value : 0\<close>\<close>

definition wav_sample :: "('f::zero) number option \<Rightarrow> 'f number" where
  "wav_sample v = (case v of Some x \<Rightarrow> (if isFinite x then x else Finite 0) | None \<Rightarrow> Finite 0)"

text \<open>The loops that fill \<open>interleaved\<close> (lines 166 to 172).\<close>

function wav_channel_loop ::
  "('f::zero) RingStore \<Rightarrow> nat \<Rightarrow> nat \<Rightarrow> nat \<Rightarrow> 'f number list \<Rightarrow> exn + 'f number list" where
  "wav_channel_loop store ringIndex numChannels ch interleaved =
     (if ch < numChannels
      then (case js_nth (buffers store) ch of
              None \<Rightarrow> Inl (TypeError ''Cannot read properties of undefined'')
            | Some buf \<Rightarrow>
                wav_channel_loop store ringIndex numChannels (ch + 1)
                  (interleaved @ [wav_sample (js_nth buf ringIndex)]))
      else Inr interleaved)"
  by pat_completeness auto
termination
  by (relation "measure (\<lambda>(store, ringIndex, numChannels, ch, interleaved). numChannels - ch)")
     auto

declare wav_channel_loop.simps [simp del]

function wav_frame_loop ::
  "('f::zero) RingStore \<Rightarrow> nat \<Rightarrow> nat \<Rightarrow> nat \<Rightarrow> 'f number list \<Rightarrow> exn + 'f number list" where
  "wav_frame_loop store numChannels endIndex i interleaved =
     (if i \<le> endIndex
      then (case wav_channel_loop store (i mod getCapacity store) numChannels 0 interleaved of
              Inl e \<Rightarrow> Inl e
            | Inr interleaved' \<Rightarrow> wav_frame_loop store numChannels endIndex (i + 1) interleaved')
      else Inr interleaved)"
  by pat_completeness auto
termination
  by (relation "measure (\<lambda>(store, numChannels, endIndex, i, interleaved). endIndex + 1 - i)")
     auto

declare wav_frame_loop.simps [simp del]

text \<open>\<open>exportAllChartDataAsWav\<close> (lines 138 to 225).\<close>

definition exportAllChartDataAsWav :: "('f::zero) runtime \<Rightarrow> 'f RingStore \<Rightarrow> exn + byte list" where
  "exportAllChartDataAsWav R store =
     (if length (getSeries store) = 0 then Inl (Error ''No data available'')
      else (let capacity = getCapacity store;
                totalSamples = min (writeIndex store) capacity
            in if totalSamples = 0 then Inl (Error ''No data available'')
               else (let numChannels = length (getSeries store);
                         sampleRate = 8000;
                         startIndex = (if writeIndex store > capacity
                                       then writeIndex store - capacity else 0);
                         endIndex = writeIndex store - 1
                     in case wav_frame_loop store numChannels endIndex startIndex [] of
                          Inl e \<Rightarrow> Inl e
                        | Inr interleaved \<Rightarrow>
                            (let bytesPerSample = 4;
                                 blockAlign = numChannels * bytesPerSample;
                                 byteRate = sampleRate * blockAlign;
                                 dataSize = length interleaved * bytesPerSample
                             in Inr (writeString ''RIFF'' @ writeUint32 (36 + dataSize) @
                                     writeString ''WAVE'' @ writeString ''fmt '' @
                                     writeUint32 16 @ writeUint16 3 @ writeUint16 numChannels @
                                     writeUint32 sampleRate @ writeUint32 byteRate @
                                     writeUint16 blockAlign @ writeUint16 (bytesPerSample * 8) @
                                     writeString ''data'' @ writeUint32 dataSize @
                                     concat (map (float32 R) interleaved))))))"

subsection \<open>exportChartData\<close>

text \<open>
  What \<open>downloadFile(content, filename, mimeType)\<close> of \<open>utils/consoleExport\<close> is called
  with; the module is not among the sources and the call is recorded as it is made.
\<close>

datatype download =
  DownloadText string string string
| DownloadBytes "byte list" string string

text \<open>
  \<open>exportChartData\<close> (lines 228 to 260). \<open>now\<close> is \<open>new Date().toISOString()\<close>;
  \<open>.replace(/[:.]/g, '-').slice(0, -5)\<close> is applied to it. The message of the error for
  the visible scope begins with the word \<open>visible\<close> between two backquotes, character
  \<open>0x60\<close>.
\<close>

definition file_timestamp :: "string \<Rightarrow> string" where
  "file_timestamp now =
     (let replaced = map (\<lambda>c. if c = CHR '':'' \<or> c = CHR ''.'' then CHR ''-'' else c) now
      in take (length replaced - 5) replaced)"

definition exportChartData ::
  "('f::zero) runtime \<Rightarrow> string \<Rightarrow> 'f ViewPortData \<Rightarrow> 'f RingStore \<Rightarrow> ChartExportOptions
     \<Rightarrow> exn + download" where
  "exportChartData R now snapshot store options =
     (let timestamp = file_timestamp now;
          scopeLabel = (if scope options = Visible then ''visible'' else ''all'')
      in case format options of
           Csv \<Rightarrow>
             (let filename = ''chart-data-'' @ scopeLabel @ ''-'' @ timestamp @ ''.csv''
              in case (if scope options = Visible
                       then Inr (exportVisibleChartDataAsCsv R snapshot options)
                       else exportAllChartDataAsCsv R store options) of
                   Inl e \<Rightarrow> Inl e
                 | Inr csvContent \<Rightarrow> Inr (DownloadText csvContent filename ''text/csv''))
         | Wav \<Rightarrow>
             (let filename = ''chart-data-'' @ scopeLabel @ ''-'' @ timestamp @ ''_LOUD.wav''
              in if scope options = Visible
                 then Inl (Error ([CHR 0x60] @ ''visible'' @ [CHR 0x60] @
                                  '' scope is not supported for WAV export''))
                 else (case exportAllChartDataAsWav R store of
                         Inl e \<Rightarrow> Inl e
                       | Inr wavContent \<Rightarrow> Inr (DownloadBytes wavContent filename ''audio/wav''))))"

subsection \<open>Examples\<close>

text \<open>
  A runtime on natural numbers that writes a number in tally marks, a store of capacity
  2 after three appends of the series \<open>a\<close> and \<open>b\<close> (the first \<open>a\<close> of the valid range is
  \<open>NaN\<close>), a store and a snapshot without samples, and two option records.
\<close>

definition tally_runtime :: "nat runtime" where
  "tally_runtime =
     \<lparr>toString = (\<lambda>n. case n of Finite k \<Rightarrow> replicate k (CHR ''|'') | _ \<Rightarrow> ''NaN''),
      toISOString = (\<lambda>n. case n of Finite k \<Rightarrow> ''T'' @ replicate k (CHR ''|'') | _ \<Rightarrow> ''Invalid Date''),
      toFixed3 = (\<lambda>n. case n of Finite k \<Rightarrow> replicate k (CHR ''|'') @ ''.000'' | _ \<Rightarrow> ''NaN''),
      subtract = (\<lambda>a b. case (a, b) of (Finite x, Finite y) \<Rightarrow> Finite (x - y) | _ \<Rightarrow> NaN),
      divide1000 = (\<lambda>n. case n of Finite k \<Rightarrow> Finite (k div 1000) | _ \<Rightarrow> n),
      truthy = (\<lambda>n. case n of Finite k \<Rightarrow> k \<noteq> 0 | NaN \<Rightarrow> False | _ \<Rightarrow> True),
      float32 = (\<lambda>n. case n of Finite k \<Rightarrow> [of_nat k, 0, 0, 0] | _ \<Rightarrow> [0, 0, 0, 0])\<rparr>"

definition wrapped_store :: "nat RingStore" where
  "wrapped_store =
     \<lparr>getSeries = [\<lparr>series_id = 0, name = ''a''\<rparr>, \<lparr>series_id = 1, name = ''b''\<rparr>],
      getCapacity = 2, writeIndex = 3,
      store_times = [Finite 3, Finite 2],
      buffers = [[Finite 1, NaN], [Finite 4, Finite 5]],
      firstTimestamp = Some (Finite 1)\<rparr>"

definition empty_store :: "nat RingStore" where
  "empty_store =
     \<lparr>getSeries = [\<lparr>series_id = 0, name = ''a''\<rparr>], getCapacity = 2, writeIndex = 0,
      store_times = [NaN, NaN], buffers = [[NaN, NaN]], firstTimestamp = None\<rparr>"

definition empty_snapshot :: "nat ViewPortData" where
  "empty_snapshot =
     \<lparr>series = [\<lparr>series_id = 0, name = ''a''\<rparr>], getTimes = [], getSeriesData = (\<lambda>i. []),
      snapshot_firstTimestamp = None\<rparr>"

definition raw_all_csv :: ChartExportOptions where
  "raw_all_csv = \<lparr>scope = All, includeTimestamps = Some True, timeFormat = Some Timestamp, format = Csv\<rparr>"

definition visible_wav :: ChartExportOptions where
  "visible_wav = \<lparr>scope = Visible, includeTimestamps = None, timeFormat = None, format = Wav\<rparr>"

section \<open>The frame decoder: proofs\<close>

subsection \<open>The loops of the decoder\<close>

lemma copy_block_eq: "copy_block data j e out = out @ take (e - j) (drop j data)"
proof (induction data j e out rule: copy_block.induct)
  case (1 data j e out)
  show ?case
  proof (cases "j < e \<and> j < length data")
    case True
    then have "drop j data = data ! j # drop (Suc j) data"
      by (simp add: Cons_nth_drop_Suc)
    moreover from True have "e - j = Suc (e - Suc j)" by arith
    ultimately show ?thesis
      using True "1.IH" by (subst copy_block.simps) simp
  next
    case False
    then show ?thesis by (subst copy_block.simps) auto
  qed
qed

lemma decode_loop_step:
  assumes "i < length data" "\<not> invalid_code data i"
  shows "decode_loop data i out =
         decode_loop data (i + unat (data ! i)) (out @ block_output data i)"
  using assms
  by (subst decode_loop.simps)
     (simp add: Let_def invalid_code_def copy_block_eq block_output_def
                verbatim_bytes_def restored_zero_def)

lemma decode_loop_invalid:
  assumes "i < length data" "invalid_code data i"
  shows "decode_loop data i out = Inl (COBSDecoderError ''Invalid COBS data'')"
  using assms by (subst decode_loop.simps) (simp add: Let_def invalid_code_def)

lemma decode_loop_end:
  assumes "\<not> i < length data"
  shows "decode_loop data i out = Inr out"
  using assms by (subst decode_loop.simps) simp

lemma decode_loop_blocks:
  "decode_loop data i out =
     (if \<exists>k \<in> set (code_offsets data i). invalid_code data k
      then Inl (COBSDecoderError ''Invalid COBS data'')
      else Inr (out @ concat (map (block_output data) (code_offsets data i))))"
proof (induction data i arbitrary: out rule: code_offsets.induct)
  case (1 data i)
  show ?case
  proof (cases "i < length data")
    case False
    then show ?thesis
      by (simp add: decode_loop_end code_offsets.simps [of data i])
  next
    case True
    show ?thesis
    proof (cases "invalid_code data i")
      case True
      with \<open>i < length data\<close> show ?thesis
        by (simp add: decode_loop_invalid code_offsets.simps [of data i])
    next
      case False
      from "1.IH" [OF \<open>i < length data\<close> False] False \<open>i < length data\<close>
      show ?thesis
        by (simp add: decode_loop_step code_offsets.simps [of data i])
    qed
  qed
qed

lemma decode_loop_shift:
  "decode_loop (pre @ xs) (length pre + i) out = decode_loop xs i out"
proof (induction xs i arbitrary: out rule: code_offsets.induct)
  case (1 xs i)
  show ?case
  proof (cases "i < length xs")
    case False
    then show ?thesis by (simp add: decode_loop_end)
  next
    case True
    show ?thesis
    proof (cases "invalid_code xs i")
      case True
      with \<open>i < length xs\<close> have "invalid_code (pre @ xs) (length pre + i)"
        by (auto simp: invalid_code_def nth_append)
      with True \<open>i < length xs\<close> show ?thesis
        by (simp add: decode_loop_invalid)
    next
      case False
      with \<open>i < length xs\<close> have ni: "\<not> invalid_code (pre @ xs) (length pre + i)"
        by (auto simp: invalid_code_def nth_append)
      have bo: "block_output (pre @ xs) (length pre + i) = block_output xs i"
        using \<open>i < length xs\<close>
        by (auto simp: block_output_def verbatim_bytes_def restored_zero_def nth_append)
      have c: "unat ((pre @ xs) ! (length pre + i)) = unat (xs ! i)"
        by (simp add: nth_append)
      have "decode_loop (pre @ xs) (length pre + i) out =
            decode_loop (pre @ xs) (length pre + (i + unat (xs ! i))) (out @ block_output xs i)"
        using decode_loop_step [OF _ ni, of out] \<open>i < length xs\<close> bo c
        by (simp add: add.assoc)
      also have "\<dots> = decode_loop xs (i + unat (xs ! i)) (out @ block_output xs i)"
        by (rule "1.IH" [OF \<open>i < length xs\<close> False])
      also have "\<dots> = decode_loop xs i out"
        using decode_loop_step [OF \<open>i < length xs\<close> False] by simp
      finally show ?thesis .
    qed
  qed
qed

lemma decode_loop_block:
  assumes "unat c = length blk + 1"
  shows "decode_loop (c # blk @ rest) 0 out =
         decode_loop rest 0 (out @ blk @ (if unat c < 0xFF \<and> rest \<noteq> [] then [0] else []))"
proof -
  let ?data = "c # blk @ rest"
  have ni: "\<not> invalid_code ?data 0"
    using assms by (simp add: invalid_code_def)
  have bo: "block_output ?data 0 = blk @ (if unat c < 0xFF \<and> rest \<noteq> [] then [0] else [])"
    using assms by (auto simp: block_output_def verbatim_bytes_def restored_zero_def)
  have "decode_loop ?data 0 out = decode_loop ((c # blk) @ rest) (length (c # blk) + 0) (out @ block_output ?data 0)"
    using decode_loop_step [of 0 ?data out] ni assms by simp
  also have "\<dots> = decode_loop rest 0 (out @ block_output ?data 0)"
    by (rule decode_loop_shift)
  finally show ?thesis by (simp only: bo)
qed

lemma unat_code: "n < 255 \<Longrightarrow> unat (of_nat (n + 1) :: byte) = n + 1"
  by (rule of_nat_inverse [OF refl]) simp

lemma encode_loop_nonempty: "encode_loop closing data blk \<noteq> []"
  by (induction data arbitrary: blk) auto

lemma decode_encode_loop:
  "length blk < 254 \<Longrightarrow>
   decode_loop (encode_loop closing data blk) 0 out = Inr (out @ blk @ data)"
proof (induction data arbitrary: blk out)
  case Nil
  define c :: byte where "c = of_nat (length blk + 1)"
  from Nil have u: "unat c = length blk + 1"
    unfolding c_def by (simp only: unat_code)
  have e: "encode_loop closing [] blk = c # blk @ []"
    by (simp add: c_def)
  from decode_loop_block [OF u, of "[]" out]
  have "decode_loop (c # blk @ []) 0 out = Inr (out @ blk @ [])"
    by (simp add: decode_loop_end)
  then show ?case
    by (simp only: e)
next
  case (Cons b bs)
  show ?case
  proof (cases "b = 0")
    case True
    define c :: byte where "c = of_nat (length blk + 1)"
    from Cons.prems have u: "unat c = length blk + 1"
      unfolding c_def by (simp only: unat_code)
    have e: "encode_loop closing (b # bs) blk = c # blk @ encode_loop closing bs []"
      using True by (simp add: c_def)
    from Cons.prems u have "unat c < 0xFF" by simp
    with decode_loop_block [OF u, of "encode_loop closing bs []" out] True
    have "decode_loop (c # blk @ encode_loop closing bs []) 0 out = Inr (out @ blk @ b # bs)"
      by (simp add: encode_loop_nonempty Cons.IH [of "[]"])
    then show ?thesis
      by (simp only: e)
  next
    case False
    show ?thesis
    proof (cases "length blk + 1 = 254")
      case True
      then have u: "unat (0xFF :: byte) = length (blk @ [b]) + 1" by simp
      show ?thesis
      proof (cases "bs = [] \<and> \<not> closing")
        case True
        from decode_loop_block [OF u, of "[]" out] True False \<open>length blk + 1 = 254\<close>
        show ?thesis by (simp add: decode_loop_end)
      next
        case False
        from decode_loop_block [OF u, of "encode_loop closing bs []" out] False
          \<open>b \<noteq> 0\<close> \<open>length blk + 1 = 254\<close>
        show ?thesis by (auto simp add: Cons.IH [of "[]"])
      qed
    next
      case False
      with Cons.prems have "length (blk @ [b]) < 254" by simp
      from Cons.IH [OF this, of out] False \<open>b \<noteq> 0\<close> show ?thesis by simp
    qed
  qed
qed

lemma encode_loop_no_zero:
  "length blk < 254 \<Longrightarrow> 0 \<notin> set blk \<Longrightarrow> 0 \<notin> set (encode_loop closing data blk)"
proof (induction data arbitrary: blk)
  case Nil
  then have "unat (of_nat (length blk + 1) :: byte) = length blk + 1"
    by (simp only: unat_code)
  then have "(of_nat (length blk + 1) :: byte) \<noteq> 0" by (metis Suc_eq_plus1 nat.simps(3) unat_0)
  with Nil show ?case by auto
next
  case (Cons b bs)
  from Cons.prems have "unat (of_nat (length blk + 1) :: byte) = length blk + 1"
    by (simp only: unat_code)
  then have nz: "(of_nat (length blk + 1) :: byte) \<noteq> 0" by (metis Suc_eq_plus1 nat.simps(3) unat_0)
  show ?case
  proof (cases "b = 0")
    case True
    with Cons.prems nz Cons.IH [of "[]"] show ?thesis by auto
  next
    case False
    show ?thesis
    proof (cases "length blk + 1 = 254")
      case True
      with Cons.prems False Cons.IH [of "[]"] show ?thesis by auto
    next
      case False
      with Cons.prems \<open>b \<noteq> 0\<close> Cons.IH [of "blk @ [b]"] show ?thesis by auto
    qed
  qed
qed

lemma encodeCOBS_no_zero: "0 \<notin> set (encodeCOBS closing data)"
  by (simp add: encodeCOBS_def encode_loop_no_zero)

lemma decodeCOBS_blocks:
  "decodeCOBS data =
     (if \<exists>i \<in> set (code_offsets data 0). invalid_code data i
      then Inl (COBSDecoderError ''Invalid COBS data'')
      else Inr (concat (map (block_output data) (code_offsets data 0))))"
  by (simp add: decodeCOBS_def decode_loop_blocks)

subsection \<open>The claims about the decoder\<close>

text \<open>
  C1. Round trip: for every byte sequence, of any length, and for both conventions of the
  encoder, decoding the encoded sequence gives the sequence back.
\<close>

theorem decodeCOBS_encodeCOBS: "decodeCOBS (encodeCOBS closing data) = Inr data"
  using decode_encode_loop [of "[]" closing data "[]"]
  by (simp add: decodeCOBS_def encodeCOBS_def)

text \<open>
  C2. \<open>decodeCOBS\<close> throws \<open>COBSDecoderError "Invalid COBS data"\<close> exactly when, at an
  offset where the loop reads a length code, the code is 0 or the block end \<open>i + code\<close>
  exceeds the input length plus 1; otherwise it returns a byte sequence. The result is
  either the error or the bytes: an error carries no output.
\<close>

theorem decodeCOBS_error_iff:
  "(decodeCOBS data = Inl (COBSDecoderError ''Invalid COBS data'')) =
     (\<exists>i \<in> set (code_offsets data 0).
        unat (data ! i) = 0 \<or> i + unat (data ! i) > length data + 1)
   \<and> ((\<exists>out. decodeCOBS data = Inr out) =
     (\<not> (\<exists>i \<in> set (code_offsets data 0).
          unat (data ! i) = 0 \<or> i + unat (data ! i) > length data + 1)))
   \<and> (\<forall>e. decodeCOBS data = Inl e \<longrightarrow> e = COBSDecoderError ''Invalid COBS data'')"
  by (simp add: decodeCOBS_blocks invalid_code_def)

theorem decodeCOBS_error_iff_witness:
  "(\<exists>i \<in> set (code_offsets [2, 7, 0, 1] 0).
      unat ([2, 7, 0, 1 :: byte] ! i) = 0 \<or> i + unat ([2, 7, 0, 1 :: byte] ! i) > length [2, 7, 0, 1 :: byte] + 1)
   \<and> decodeCOBS [2, 7, 0, 1] = Inl (COBSDecoderError ''Invalid COBS data'')
   \<and> \<not> (\<exists>i \<in> set (code_offsets [2, 1, 1] 0).
      unat ([2, 1, 1 :: byte] ! i) = 0 \<or> i + unat ([2, 1, 1 :: byte] ! i) > length [2, 1, 1 :: byte] + 1)
   \<and> (\<exists>out. decodeCOBS [2, 1, 1] = Inr out)"
proof -
  have h1: "\<exists>i \<in> set (code_offsets [2, 7, 0, 1] 0).
      unat ([2, 7, 0, 1 :: byte] ! i) = 0 \<or> i + unat ([2, 7, 0, 1 :: byte] ! i) > length [2, 7, 0, 1 :: byte] + 1"
    by code_simp
  have h2: "\<not> (\<exists>i \<in> set (code_offsets [2, 1, 1] 0).
      unat ([2, 1, 1 :: byte] ! i) = 0 \<or> i + unat ([2, 1, 1 :: byte] ! i) > length [2, 1, 1 :: byte] + 1)"
    by code_simp
  from decodeCOBS_error_iff [of "[2, 7, 0, 1]"] h1
  have "decodeCOBS [2, 7, 0, 1] = Inl (COBSDecoderError ''Invalid COBS data'')"
    by blast
  moreover from decodeCOBS_error_iff [of "[2, 1, 1]"] h2
  have "\<exists>out. decodeCOBS [2, 1, 1] = Inr out"
    by blast
  ultimately show ?thesis
    using h1 h2 by blast
qed

text \<open>
  C3. When \<open>decodeCOBS\<close> succeeds, its output is, block after block in the order the codes
  are read, the next \<open>n - 1\<close> input bytes after the code \<open>n\<close> (fewer when the input ends),
  followed by one zero byte exactly when \<open>n < 0xFF\<close> and the input goes on beyond the
  block; a block with the code \<open>0xFF\<close> is never followed by a zero.
\<close>

theorem decodeCOBS_output:
  "(decodeCOBS data = Inr out \<longrightarrow>
      out = concat (map (\<lambda>i. take (unat (data ! i) - 1) (drop (i + 1) data) @
                              (if unat (data ! i) < 0xFF \<and> i + unat (data ! i) < length data
                               then [0] else []))
                        (code_offsets data 0)))
   \<and> (\<forall>i. unat (data ! i) = 0xFF \<longrightarrow> restored_zero data i = [])"
proof -
  have "block_output data =
        (\<lambda>i. take (unat (data ! i) - 1) (drop (i + 1) data) @
             (if unat (data ! i) < 0xFF \<and> i + unat (data ! i) < length data then [0] else []))"
    by (rule ext) (simp add: block_output_def verbatim_bytes_def restored_zero_def)
  then have "decodeCOBS data = Inr out \<longrightarrow>
      out = concat (map (\<lambda>i. take (unat (data ! i) - 1) (drop (i + 1) data) @
                              (if unat (data ! i) < 0xFF \<and> i + unat (data ! i) < length data
                               then [0] else []))
                        (code_offsets data 0))"
    by (simp add: decodeCOBS_blocks split: if_splits)
  moreover have "\<forall>i. unat (data ! i) = 0xFF \<longrightarrow> restored_zero data i = []"
    by (simp add: restored_zero_def)
  ultimately show ?thesis by blast
qed

theorem decodeCOBS_output_witness:
  "decodeCOBS [3, 1, 2, 2, 5] = Inr [1, 2, 0, 5]
   \<and> [1, 2, 0, 5 :: byte] =
       concat (map (\<lambda>i. take (unat ([3, 1, 2, 2, 5 :: byte] ! i) - 1) (drop (i + 1) [3, 1, 2, 2, 5 :: byte]) @
                        (if unat ([3, 1, 2, 2, 5 :: byte] ! i) < 0xFF
                            \<and> i + unat ([3, 1, 2, 2, 5 :: byte] ! i) < length [3, 1, 2, 2, 5 :: byte]
                         then [0] else []))
                   (code_offsets [3, 1, 2, 2, 5] 0))
   \<and> unat ([255, 1 :: byte] ! 0) = 0xFF \<and> restored_zero [255, 1] 0 = []"
proof -
  have d: "decodeCOBS [3, 1, 2, 2, 5] = Inr [1, 2, 0, 5]"
    by code_simp
  have u: "unat ([255, 1 :: byte] ! 0) = 0xFF"
    by simp
  from decodeCOBS_output [of "[3, 1, 2, 2, 5]" "[1, 2, 0, 5]"] d
    decodeCOBS_output [of "[255, 1]" "[]"] u
  show ?thesis
    by blast
qed

section \<open>The streaming read loop: proofs\<close>

lemma indexOf_less: "indexOf xs c = Some n \<Longrightarrow> n < length xs"
  by (induction xs arbitrary: n) (auto split: if_splits)

lemma indexOf_append:
  "indexOf xs c = Some n \<Longrightarrow> indexOf (xs @ ys) c = Some n"
  by (induction xs arbitrary: n) (auto split: if_splits)

lemma drain_append:
  "drain h (x @ y) em = (case drain h x em of (b, em') \<Rightarrow> drain h (b @ y) em')"
proof (induction h x em rule: drain.induct)
  case (1 handler buffer emitted)
  show ?case
  proof (cases "indexOf buffer (CHR 0x0A)")
    case None
    then show ?thesis
      by (simp add: drain.simps [of handler buffer])
  next
    case (Some index)
    then have lt: "index < length buffer"
      by (rule indexOf_less)
    have ix: "indexOf (buffer @ y) (CHR 0x0A) = Some index"
      using Some by (rule indexOf_append)
    have "drain handler (buffer @ y) emitted =
          drain handler (drop (index + 1) buffer @ y)
            (if handler then emitted @ [strip_cr (take index buffer)] else emitted)"
      using lt by (subst drain.simps) (simp add: ix Let_def)
    also have "\<dots> = (case drain handler (drop (index + 1) buffer)
                         (if handler then emitted @ [strip_cr (take index buffer)] else emitted) of
                      (b, em') \<Rightarrow> drain handler (b @ y) em')"
      by (rule "1.IH" [OF Some refl])
    also have "drain handler (drop (index + 1) buffer)
                 (if handler then emitted @ [strip_cr (take index buffer)] else emitted) =
               drain handler buffer emitted"
      by (subst (2) drain.simps) (simp add: Some Let_def)
    finally show ?thesis .
  qed
qed

lemma drain_idem:
  "(case drain h x em of (b, em') \<Rightarrow> drain h b em' = (b, em'))"
proof (induction h x em rule: drain.induct)
  case (1 handler buffer emitted)
  show ?case
  proof (cases "indexOf buffer (CHR 0x0A)")
    case None
    then show ?thesis
      by (simp add: drain.simps [of handler buffer])
  next
    case (Some index)
    from "1.IH" [OF Some refl] show ?thesis
      by (subst drain.simps) (simp add: Some Let_def)
  qed
qed

lemma read_loop_chunks:
  assumes "drain h buf em = (buf, em)"
  shows "read_loop h (map ReadValue cs @ rs) buf em =
         (case drain h (buf @ concat cs) em of (b, em') \<Rightarrow> read_loop h rs b em')"
  using assms
proof (induction cs arbitrary: buf em)
  case Nil
  then show ?case by simp
next
  case (Cons c cs)
  obtain b1 e1 where d: "drain h (buf @ c) em = (b1, e1)"
    by (cases "drain h (buf @ c) em")
  from drain_idem [of h "buf @ c" em] d have "drain h b1 e1 = (b1, e1)"
    by simp
  from Cons.IH [OF this]
  have "read_loop h (map ReadValue cs @ rs) b1 e1 =
        (case drain h (b1 @ concat cs) e1 of (b, em') \<Rightarrow> read_loop h rs b em')" .
  moreover have "drain h ((buf @ c) @ concat cs) em = drain h (b1 @ concat cs) e1"
    by (simp only: drain_append [of h "buf @ c"] d split)
  ultimately show ?case
    by (simp add: d)
qed

lemma stream_lines_chunks:
  "stream_lines h (map ReadValue cs @ rs) =
     (case drain h (concat cs) [] of (b, em) \<Rightarrow> read_loop h rs b em)"
proof -
  have "drain h [] [] = ([], [])"
    by (simp add: drain.simps [of h "[]"])
  from read_loop_chunks [OF this, of cs rs] show ?thesis
    by (simp add: stream_lines_def)
qed

lemma drain_example:
  "drain True (''a,1'' @ [CHR 0x0A] @ ''b,2'' @ [CHR 0x0D, CHR 0x0A] @ ''c,'') [] =
     (''c,'', [''a,1'', ''b,2''])"
  by code_simp

text \<open>
  C4. When the chunks read so far concatenate to the text \<open>a,1\<close> LF \<open>b,2\<close> CR LF \<open>c,\<close>, however
  they are cut, the registered handler has been called exactly twice, with \<open>a,1\<close> and then
  \<open>b,2\<close>, and \<open>c,\<close> is held in the buffer: it is not emitted when the stream ends there, and
  whatever is read next is appended to it.
\<close>

theorem http_stream_lines:
  "concat chunks = ''a,1'' @ [CHR 0x0A] @ ''b,2'' @ [CHR 0x0D, CHR 0x0A] @ ''c,'' \<Longrightarrow>
   stream_lines True (map ReadValue chunks) =
     \<lparr>buffer = ''c,'', emitted = [''a,1'', ''b,2''], status = Reading\<rparr>
   \<and> stream_lines True (map ReadValue chunks @ [ReadDone]) =
     \<lparr>buffer = ''c,'', emitted = [''a,1'', ''b,2''], status = Ended\<rparr>
   \<and> stream_lines True (map ReadValue chunks @ rs) = read_loop True rs ''c,'' [''a,1'', ''b,2'']"
proof -
  assume c: "concat chunks = ''a,1'' @ [CHR 0x0A] @ ''b,2'' @ [CHR 0x0D, CHR 0x0A] @ ''c,''"
  have "stream_lines True (map ReadValue chunks @ rs') = read_loop True rs' ''c,'' [''a,1'', ''b,2'']"
    for rs'
    by (simp only: stream_lines_chunks c drain_example split)
  from this [of "[]"] this [of "[ReadDone]"] this [of rs] show ?thesis
    by simp
qed

theorem http_stream_lines_witness:
  "concat [''a,1'' @ [CHR 0x0A] @ ''b'', '',2'' @ [CHR 0x0D], [CHR 0x0A] @ ''c,''] =
     ''a,1'' @ [CHR 0x0A] @ ''b,2'' @ [CHR 0x0D, CHR 0x0A] @ ''c,''
   \<and> stream_lines True (map ReadValue [''a,1'' @ [CHR 0x0A] @ ''b'', '',2'' @ [CHR 0x0D], [CHR 0x0A] @ ''c,'']) =
     \<lparr>buffer = ''c,'', emitted = [''a,1'', ''b,2''], status = Reading\<rparr>"
proof -
  have h: "concat [''a,1'' @ [CHR 0x0A] @ ''b'', '',2'' @ [CHR 0x0D], [CHR 0x0A] @ ''c,''] =
     ''a,1'' @ [CHR 0x0A] @ ''b,2'' @ [CHR 0x0D, CHR 0x0A] @ ''c,''"
    by simp
  from http_stream_lines [OF h, of "[]"] h show ?thesis
    by blast
qed

section \<open>The connection manager: proofs\<close>

lemmas manager_defs =
  stop_generator_def drop_http_def drop_serial_def generator_stop_def serial_disconnect_def
  http_disconnect_def setState_def

lemma http_connect_cases:
  "http_connect net address h = (r, h') \<Longrightarrow>
   (r = Pending \<longrightarrow> \<not> http_isConnected (http_state h')) \<and>
   (\<forall>e. r = Rejected e \<longrightarrow> \<not> http_isConnected (http_state h') \<and> \<not> http_isConnecting (http_state h'))"
  by (auto simp: http_connect_def http_attempt_def Let_def manager_defs
           split: if_splits promise.splits ws_peer.splits prod.splits fetch_peer.splits)




lemmas eval_defs =
  connectHttp_def connectSerial_def connectGenerator_def silent_network_def open_network_def
  useDataConnection_init_def Let_def manager_defs http_connect_def http_attempt_def
  isWebSocket_def useHttp_init_def http_onLine_def active_backends_def serial_active_def
  http_active_def generator_active_def manager_write_def http_write_def serial_write_def
  DEFAULT_SERIAL_CONFIG_def


subsection \<open>Failed connection attempts\<close>

lemma connectSerial_failure:
  "fst (connectSerial a config m) = Rejected e \<Longrightarrow>
   a = Fails e
   \<and> connectionType (snd (connectSerial a config m)) = None
   \<and> \<not> isConnecting (snd (connectSerial a config m))
   \<and> error (snd (connectSerial a config m)) = Some (message_of e ''Failed to connect to serial port'')"
  by (cases a) (auto simp: connectSerial_def Let_def)

lemma connectHttp_failure:
  "fst (connectHttp net address m) = Rejected e \<Longrightarrow>
   connectionType (snd (connectHttp net address m)) = None
   \<and> \<not> isConnecting (snd (connectHttp net address m))
   \<and> \<not> http_isConnecting (http_state (http (snd (connectHttp net address m))))
   \<and> \<not> http_isConnected (http_state (http (snd (connectHttp net address m))))
   \<and> error (snd (connectHttp net address m)) = Some (message_of e ''Failed to connect to HTTP stream'')"
  by (auto simp: connectHttp_def Let_def split: prod.splits promise.splits dest: http_connect_cases)

text \<open>
  C6. A connect call whose backend fails clears the active kind, records the message and
  rejects. \<open>connectSerial\<close> and \<open>connectHttp\<close> do so (the two lemmas above and the last two
  conjuncts below). \<open>connectGenerator\<close> clears the kind and records the message, but its
  promise resolves: the failure does not reach the caller.
\<close>

theorem connectGenerator_failure_resolves:
  "fst (connectGenerator (Throws e) m) = Resolved ()
   \<and> connectionType (snd (connectGenerator (Throws e) m)) = None
   \<and> error (snd (connectGenerator (Throws e) m)) =
       Some (message_of e ''Failed to start signal generator'')
   \<and> fst (connectSerial (Fails e) config m) = Rejected e
   \<and> (fst (connectHttp \<lparr>ws_peer = p, fetch_peer = FetchRejects e\<rparr> ''http://device/stream''
            (useDataConnection_init True True)) = Rejected e)"
  by (simp add: eval_defs)

subsection \<open>Writing\<close>

lemma http_connect_pending:
  "fst (http_connect net address h) = Pending \<Longrightarrow>
   \<not> http_isConnected (http_state (snd (http_connect net address h)))"
  using http_connect_cases [of net address h Pending "snd (http_connect net address h)"]
  by (metis prod.collapse)

lemma http_connect_stream:
  "http_isSupported (http_state h) \<Longrightarrow> \<not> isWebSocket address \<Longrightarrow>
   fst (http_connect net address h) = Resolved () \<Longrightarrow>
   http_isConnected (http_state (snd (http_connect net address h)))
   \<and> socketRef (snd (http_connect net address h)) = None"
  by (auto simp: http_connect_def http_attempt_def Let_def manager_defs
           split: prod.splits promise.splits if_splits)

text \<open>
  C7. \<open>write\<close> rejects with \<open>Not connected\<close> whenever neither the serial nor the HTTP backend
  is connected, whenever the active kind is none or the generator, while a connect call is
  pending, after a connect call that was rejected, and after every \<open>connectGenerator\<close>;
  an error result hands nothing to a transport. After a successful \<open>connectHttp\<close> to an
  address that is not a WebSocket address it rejects with
  \<open>write on HTTP connection not supported\<close>.
\<close>

theorem write_without_connection:
  "(\<not> serial_isConnected (serial m) \<and> \<not> http_isConnected (http_state (http m)) \<longrightarrow>
      manager_write d m = Rejected (Error ''Not connected''))
   \<and> (connectionType m = None \<or> connectionType m = Some Generator \<longrightarrow>
      manager_write d m = Rejected (Error ''Not connected''))
   \<and> (fst (connectSerial a config m) = Pending \<or> (\<exists>e. fst (connectSerial a config m) = Rejected e) \<longrightarrow>
      manager_write d (snd (connectSerial a config m)) = Rejected (Error ''Not connected''))
   \<and> (fst (connectHttp net address m) = Pending \<or> (\<exists>e. fst (connectHttp net address m) = Rejected e) \<longrightarrow>
      manager_write d (snd (connectHttp net address m)) = Rejected (Error ''Not connected''))
   \<and> manager_write d (snd (connectGenerator g m)) = Rejected (Error ''Not connected'')
   \<and> (http_isSupported (http_state (http m)) \<and> \<not> isWebSocket address
        \<and> fst (connectHttp net address m) = Resolved () \<longrightarrow>
      manager_write d (snd (connectHttp net address m)) =
        Rejected (Error ''write on HTTP connection not supported''))"
proof -
  have 1: "\<not> serial_isConnected (serial m) \<and> \<not> http_isConnected (http_state (http m)) \<longrightarrow>
      manager_write d m = Rejected (Error ''Not connected'')"
    by (simp add: manager_write_def)
  have 2: "connectionType m = None \<or> connectionType m = Some Generator \<longrightarrow>
      manager_write d m = Rejected (Error ''Not connected'')"
    by (auto simp: manager_write_def)
  have 3: "fst (connectSerial a config m) = Pending \<or> (\<exists>e. fst (connectSerial a config m) = Rejected e) \<longrightarrow>
      manager_write d (snd (connectSerial a config m)) = Rejected (Error ''Not connected'')"
    by (cases a) (auto simp: connectSerial_def Let_def manager_defs manager_write_def http_write_def)
  have 4: "fst (connectHttp net address m) = Pending \<or> (\<exists>e. fst (connectHttp net address m) = Rejected e) \<longrightarrow>
      manager_write d (snd (connectHttp net address m)) = Rejected (Error ''Not connected'')"
    by (auto simp: connectHttp_def Let_def manager_defs manager_write_def http_write_def
             split: prod.splits promise.splits dest: http_connect_cases)
  have 5: "manager_write d (snd (connectGenerator g m)) = Rejected (Error ''Not connected'')"
    by (cases g) (auto simp: connectGenerator_def Let_def manager_write_def)
  have 6: "http_isSupported (http_state (http m)) \<and> \<not> isWebSocket address
        \<and> fst (connectHttp net address m) = Resolved () \<longrightarrow>
      manager_write d (snd (connectHttp net address m)) =
        Rejected (Error ''write on HTTP connection not supported'')"
  proof (intro impI, elim conjE)
    assume s: "http_isSupported (http_state (http m))" and w: "\<not> isWebSocket address"
      and r: "fst (connectHttp net address m) = Resolved ()"
    let ?m3 = "(stop_generator (drop_serial m))\<lparr>isConnecting := True, error := None\<rparr>"
    have s3: "http_isSupported (http_state (http ?m3))"
      using s by (simp add: manager_defs)
    from r have r3: "fst (http_connect net address (http ?m3)) = Resolved ()"
      by (auto simp: connectHttp_def Let_def split: prod.splits promise.splits)
    from http_connect_stream [OF s3 w r3] r3 show
      "manager_write d (snd (connectHttp net address m)) =
        Rejected (Error ''write on HTTP connection not supported'')"
      by (auto simp: connectHttp_def Let_def manager_write_def http_write_def
               split: prod.splits promise.splits)
  qed
  from 1 2 3 4 5 6 show ?thesis by blast
qed

theorem write_without_connection_witness:
  "manager_write ''x'' (useDataConnection_init True True) = Rejected (Error ''Not connected'')
   \<and> fst (connectSerial (Fails (Error ''no port'')) DEFAULT_SERIAL_CONFIG
        (snd (connectHttp open_network ''ws://device/ws'' (useDataConnection_init True True))))
      = Rejected (Error ''no port'')
   \<and> manager_write ''x'' (snd (connectSerial (Fails (Error ''no port'')) DEFAULT_SERIAL_CONFIG
        (snd (connectHttp open_network ''ws://device/ws'' (useDataConnection_init True True)))))
      = Rejected (Error ''Not connected'')
   \<and> fst (connectHttp silent_network ''http://device/stream'' (useDataConnection_init True True)) = Pending
   \<and> manager_write ''x'' (snd (connectHttp silent_network ''http://device/stream''
        (useDataConnection_init True True))) = Rejected (Error ''Not connected'')
   \<and> \<not> isWebSocket ''http://device/stream''
   \<and> fst (connectHttp open_network ''http://device/stream'' (useDataConnection_init True True))
      = Resolved ()
   \<and> manager_write ''x'' (snd (connectHttp open_network ''http://device/stream''
        (useDataConnection_init True True)))
      = Rejected (Error ''write on HTTP connection not supported'')"
proof -
  let ?i = "useDataConnection_init True True"
  let ?m = "snd (connectHttp open_network ''ws://device/ws'' ?i)"
  have a: "\<not> serial_isConnected (serial ?i) \<and> \<not> http_isConnected (http_state (http ?i))"
    by (simp add: eval_defs)
  have b: "fst (connectSerial (Fails (Error ''no port'')) DEFAULT_SERIAL_CONFIG ?m)
           = Rejected (Error ''no port'')"
    by (simp add: connectSerial_def Let_def split: prod.splits)
  have c: "fst (connectHttp silent_network ''http://device/stream'' ?i) = Pending"
    by (simp add: eval_defs)
  have d: "http_isSupported (http_state (http ?i)) \<and> \<not> isWebSocket ''http://device/stream''
           \<and> fst (connectHttp open_network ''http://device/stream'' ?i) = Resolved ()"
    by (simp add: eval_defs)
  note T = write_without_connection
  have w1: "manager_write ''x'' ?i = Rejected (Error ''Not connected'')"
    using T [of ?i "''x''", THEN conjunct1] a by blast
  have w3: "manager_write ''x'' (snd (connectSerial (Fails (Error ''no port'')) DEFAULT_SERIAL_CONFIG ?m))
            = Rejected (Error ''Not connected'')"
    using T [of ?m "''x''" "Fails (Error ''no port'')" DEFAULT_SERIAL_CONFIG,
             THEN conjunct2, THEN conjunct2, THEN conjunct1] b by blast
  have w4: "manager_write ''x'' (snd (connectHttp silent_network ''http://device/stream'' ?i))
            = Rejected (Error ''Not connected'')"
    using T [of ?i "''x''" _ _ silent_network "''http://device/stream''",
             THEN conjunct2, THEN conjunct2, THEN conjunct2, THEN conjunct1] c by blast
  have w6: "manager_write ''x'' (snd (connectHttp open_network ''http://device/stream'' ?i))
            = Rejected (Error ''write on HTTP connection not supported'')"
    using T [of ?i "''x''" _ _ open_network "''http://device/stream''",
             THEN conjunct2, THEN conjunct2, THEN conjunct2, THEN conjunct2, THEN conjunct2] d
    by blast
  from w1 b w3 c w4 d w6 show ?thesis
    by (intro conjI) (rule w1 b w3 c w4 w6 | simp add: d)+
qed

subsection \<open>Connection attempts without an answer\<close>

text \<open>
  C8. With a peer that never answers, the WebSocket attempt is rejected with
  \<open>Connection timeout\<close> by the timer, and the attempt of the streaming mode stays pending
  with the hook connecting: nothing bounds it.
\<close>

theorem http_fetch_has_no_timeout:
  "fst (http_connect silent_network ''ws://device/ws'' (useHttp_init True))
     = Rejected (Error ''Connection timeout'')
   \<and> fst (http_connect silent_network ''http://device/stream'' (useHttp_init True)) = Pending
   \<and> http_isConnecting (http_state (snd (http_connect silent_network ''http://device/stream''
        (useHttp_init True))))"
  by (simp add: eval_defs)

section \<open>The chart export: proofs\<close>





text \<open>
  C10. Without data the CSV exports do not throw: the visible export returns
  \<open>No data available\<close> when the snapshot has no series or no times, the full export
  returns \<open>No data available\<close> when the store has no series and the header row alone
  when it has no valid sample. \<open>exportAllChartDataAsWav\<close> throws
  \<open>No data available\<close> in both situations. \<open>exportChartData\<close> with the format WAV and
  the visible scope always throws, so a WAV download is made from the full store only.
\<close>

theorem export_without_data:
  "(series snapshot = [] \<or> getTimes snapshot = [] \<longrightarrow>
      exportVisibleChartDataAsCsv R snapshot options = ''No data available'')
   \<and> (getSeries store = [] \<longrightarrow>
      exportAllChartDataAsCsv R store options = Inr ''No data available'')
   \<and> (getSeries store \<noteq> [] \<and> min (writeIndex store) (getCapacity store) = 0 \<longrightarrow>
      exportAllChartDataAsCsv R store options =
        Inr (join '','' ((if includes_timestamps options then [''Timestamp''] else []) @
                        map name (getSeries store))))
   \<and> (getSeries store = [] \<or> min (writeIndex store) (getCapacity store) = 0 \<longrightarrow>
      exportAllChartDataAsWav R store = Inl (Error ''No data available''))
   \<and> (format options = Wav \<and> scope options = Visible \<longrightarrow>
      exportChartData R now snapshot store options =
        Inl (Error ([CHR 0x60] @ ''visible'' @ [CHR 0x60] @ '' scope is not supported for WAV export'')))
   \<and> (\<forall>d. format options = Wav \<and> exportChartData R now snapshot store options = Inr d \<longrightarrow>
      scope options = All \<and>
      (\<exists>wavContent filename. d = DownloadBytes wavContent filename ''audio/wav''
          \<and> exportAllChartDataAsWav R store = Inr wavContent))"
proof -
  have 1: "series snapshot = [] \<or> getTimes snapshot = [] \<longrightarrow>
      exportVisibleChartDataAsCsv R snapshot options = ''No data available''"
    by (auto simp: exportVisibleChartDataAsCsv_def)
  have 2: "getSeries store = [] \<longrightarrow>
      exportAllChartDataAsCsv R store options = Inr ''No data available''"
    by (simp add: exportAllChartDataAsCsv_def)
  have 3: "getSeries store \<noteq> [] \<and> min (writeIndex store) (getCapacity store) = 0 \<longrightarrow>
      exportAllChartDataAsCsv R store options =
        Inr (join '','' ((if includes_timestamps options then [''Timestamp''] else []) @
                        map name (getSeries store)))"
    by (simp add: exportAllChartDataAsCsv_def Let_def csv_header_def)
  have 4: "getSeries store = [] \<or> min (writeIndex store) (getCapacity store) = 0 \<longrightarrow>
      exportAllChartDataAsWav R store = Inl (Error ''No data available'')"
    by (auto simp: exportAllChartDataAsWav_def Let_def)
  have 5: "format options = Wav \<and> scope options = Visible \<longrightarrow>
      exportChartData R now snapshot store options =
        Inl (Error ([CHR 0x60] @ ''visible'' @ [CHR 0x60] @ '' scope is not supported for WAV export''))"
    by (simp add: exportChartData_def Let_def)
  have 6: "\<forall>d. format options = Wav \<and> exportChartData R now snapshot store options = Inr d \<longrightarrow>
      scope options = All \<and>
      (\<exists>wavContent filename. d = DownloadBytes wavContent filename ''audio/wav''
          \<and> exportAllChartDataAsWav R store = Inr wavContent)"
  proof (intro allI impI, elim conjE)
    fix d
    assume f: "format options = Wav"
      and r: "exportChartData R now snapshot store options = Inr d"
    from f r have v: "scope options \<noteq> Visible"
      by (auto simp: exportChartData_def Let_def)
    then have a: "scope options = All"
      by (cases "scope options") simp_all
    from f r v obtain wavContent where w: "exportAllChartDataAsWav R store = Inr wavContent"
      and d: "d = DownloadBytes wavContent
                (''chart-data-'' @ ''all'' @ ''-'' @ file_timestamp now @ ''_LOUD.wav'') ''audio/wav''"
      by (cases "exportAllChartDataAsWav R store") (auto simp: exportChartData_def Let_def)
    from a w d show "scope options = All \<and>
      (\<exists>wavContent filename. d = DownloadBytes wavContent filename ''audio/wav''
          \<and> exportAllChartDataAsWav R store = Inr wavContent)"
      by blast
  qed
  from 1 2 3 4 5 6 show ?thesis by blast
qed

theorem export_without_data_witness:
  "getTimes empty_snapshot = []
   \<and> exportVisibleChartDataAsCsv tally_runtime empty_snapshot raw_all_csv = ''No data available''
   \<and> getSeries empty_store \<noteq> []
   \<and> min (writeIndex empty_store) (getCapacity empty_store) = 0
   \<and> exportAllChartDataAsCsv tally_runtime empty_store raw_all_csv = Inr ''Timestamp,a''
   \<and> exportAllChartDataAsWav tally_runtime empty_store = Inl (Error ''No data available'')
   \<and> format visible_wav = Wav \<and> scope visible_wav = Visible
   \<and> exportChartData tally_runtime ''2026-01-01T00:00:00.000Z'' empty_snapshot wrapped_store visible_wav =
        Inl (Error ([CHR 0x60] @ ''visible'' @ [CHR 0x60] @ '' scope is not supported for WAV export''))"
proof -
  note T = export_without_data [of empty_snapshot tally_runtime raw_all_csv empty_store]
  have a: "getTimes empty_snapshot = []"
    by (simp add: empty_snapshot_def)
  have b: "getSeries empty_store \<noteq> []" "min (writeIndex empty_store) (getCapacity empty_store) = 0"
    by (simp_all add: empty_store_def)
  have c: "format visible_wav = Wav" "scope visible_wav = Visible"
    by (simp_all add: visible_wav_def)
  have h: "join '','' ((if includes_timestamps raw_all_csv then [''Timestamp''] else []) @
                        map name (getSeries empty_store)) = ''Timestamp,a''"
    by code_simp
  have w1: "exportVisibleChartDataAsCsv tally_runtime empty_snapshot raw_all_csv = ''No data available''"
    using T [THEN conjunct1] a by blast
  have w3: "exportAllChartDataAsCsv tally_runtime empty_store raw_all_csv = Inr ''Timestamp,a''"
    using T [THEN conjunct2, THEN conjunct2, THEN conjunct1] b by (simp only: h simp_thms)
  have w4: "exportAllChartDataAsWav tally_runtime empty_store = Inl (Error ''No data available'')"
    using T [THEN conjunct2, THEN conjunct2, THEN conjunct2, THEN conjunct1] b by blast
  have w5: "exportChartData tally_runtime ''2026-01-01T00:00:00.000Z'' empty_snapshot wrapped_store visible_wav =
        Inl (Error ([CHR 0x60] @ ''visible'' @ [CHR 0x60] @ '' scope is not supported for WAV export''))"
    using export_without_data [of empty_snapshot tally_runtime visible_wav wrapped_store
            "''2026-01-01T00:00:00.000Z''",
            THEN conjunct2, THEN conjunct2, THEN conjunct2, THEN conjunct2, THEN conjunct1] c
    by blast
  show ?thesis
    by (intro conjI) (rule a b c w1 w3 w4 w5)+
qed

end
